theory Spec2Isabelle
  imports Main "HOL-Library.Sublist"
begin

section \<open>Data model\<close>

text \<open>
  Go's \<open>time.Duration\<close> is a signed 64-bit count of nanoseconds. The controller only
  compares durations, so they are integers here; no arithmetic on them can overflow.
\<close>

type_synonym duration = int

definition Second :: duration where
  "Second = 1000000000"

definition Minute :: duration where
  "Minute = 60 * Second"

definition Hour :: duration where
  "Hour = 60 * Minute"

text \<open>A Go \<open>error\<close> value, carrying the text that \<open>%s\<close> prints.\<close>

datatype error = Error string

fun errorString :: "error \<Rightarrow> string" where
  "errorString (Error s) = s"

datatype conditionStatus = ConditionTrue | ConditionFalse | ConditionUnknown

text \<open>The condition types of \<open>v1alpha1\<close>, a closed enumeration.\<close>

datatype requestCondition =
    ConditionRequestDurationsValid
  | ConditionAccessStillValid
  | ConditionAccessResourcesCreated
  | ConditionAccessResourcesReady

record condition =
  Type :: requestCondition
  Status :: conditionStatus
  Reason :: string
  Message :: string

text \<open>
  The request as the controller and the builder see it through \<open>IRequestResource\<close>: each
  getter of the interface is a field holding what the getter returns. \<open>GetDuration\<close> is the
  parse of \<open>spec.duration\<close> (a duration or an error), \<open>GetUptime\<close> the age of the request.
\<close>

record request =
  GetName :: string
  GetDuration :: "error + duration"
  GetUptime :: duration
  Conditions :: "condition list"
  PodName :: string
  AccessMessage :: string

record template =
  GetDefaultDuration :: "error + duration"
  GetMaxDuration :: "error + duration"
  AccessCommand :: string

record pod =
  podName :: string
  podNamespace :: string

record policyRule =
  APIGroups :: "string list"
  Resources :: "string list"
  ResourceNames :: "string list"
  Verbs :: "string list"

record role =
  roleName :: string
  roleRules :: "policyRule list"

record roleBinding =
  bindingName :: string
  bindingRole :: string

text \<open>
  Every call that leaves the process is recorded, in order. The \<open>k\<close>-th call of a run fails
  when the API script \<open>api k\<close> holds an error.
\<close>

datatype apiCall =
    CallUpdateStatus condition
  | CallDelete
  | CallGetPod
  | CallCreateRole "policyRule list"
  | CallCreateRoleBinding string
  | CallStatusUpdate

type_synonym api = "nat \<Rightarrow> error option"

definition apiOk :: api where
  "apiOk = (\<lambda>k. None)"

record world =
  Request :: request
  Deleted :: bool
  Calls :: "apiCall list"

section \<open>Library functions the source calls\<close>

subsection \<open>Go's \<open>time.Duration.String\<close>\<close>

definition digitChar :: "nat \<Rightarrow> char" where
  "digitChar d = ''0123456789'' ! (d mod 10)"

fun fmtInt :: "nat \<Rightarrow> string" where
  "fmtInt v = (if v < 10 then [digitChar v] else fmtInt (v div 10) @ [digitChar (v mod 10)])"

declare fmtInt.simps [simp del]

text \<open>
  \<open>fmtFrac\<close> writes the fraction \<open>v / 10^prec\<close> in front of the buffer, without trailing
  zeros and without the point when the fraction is zero, and returns \<open>v div 10^prec\<close>.
\<close>

fun fmtFracLoop :: "nat \<Rightarrow> nat \<Rightarrow> bool \<Rightarrow> string \<Rightarrow> string \<times> nat \<times> bool" where
  "fmtFracLoop prec v print buf =
     (if prec = 0 then (buf, v, print)
      else
        (let digit = v mod 10; print' = (if digit = 0 then print else True)
         in fmtFracLoop (prec - 1) (v div 10) print'
              (if print' then digitChar digit # buf else buf)))"

declare fmtFracLoop.simps [simp del]

definition fmtFrac :: "string \<Rightarrow> nat \<Rightarrow> nat \<Rightarrow> string \<times> nat" where
  "fmtFrac buf v prec =
     (case fmtFracLoop prec v False buf of
        (b, v', print) \<Rightarrow> (if print then CHR ''.'' # b else b, v'))"

definition durationString :: "duration \<Rightarrow> string" where
  "durationString d =
     (let u = nat \<bar>d\<bar>; neg = (d < 0);
          body =
            (if u < 1000000000 then
               (if u = 0 then ''0s''
                else
                  (let (prec, unit) =
                         (if u < 1000 then (0, ''ns'')
                          else if u < 1000000 then (3, [CHR 0xC2, CHR 0xB5, CHR ''s''])
                          else (6, ''ms''))
                   in case fmtFrac unit u prec of (b, u') \<Rightarrow> fmtInt u' @ b))
             else
               (case fmtFrac ''s'' u 9 of
                  (b, u1) \<Rightarrow>
                    (let b1 = fmtInt (u1 mod 60) @ b; u2 = u1 div 60
                     in if u2 > 0 then
                          (let b2 = fmtInt (u2 mod 60) @ CHR ''m'' # b1; u3 = u2 div 60
                           in if u3 > 0 then fmtInt u3 @ CHR ''h'' # b2 else b2)
                        else b1)))
      in if neg then CHR ''-'' # body else body)"

subsection \<open>\<open>meta.FindStatusCondition\<close> and \<open>meta.SetStatusCondition\<close>\<close>

fun FindStatusCondition :: "condition list \<Rightarrow> requestCondition \<Rightarrow> condition option" where
  "FindStatusCondition [] t = None"
| "FindStatusCondition (c # cs) t = (if Type c = t then Some c else FindStatusCondition cs t)"

fun SetStatusCondition :: "condition list \<Rightarrow> condition \<Rightarrow> condition list" where
  "SetStatusCondition [] new = [new]"
| "SetStatusCondition (c # cs) new =
     (if Type c = Type new then new # cs else c # SetStatusCondition cs new)"

section \<open>The status package\<close>

text \<open>
  Modelled from the spec: the package \<open>internal/controllers/internal/status\<close>, whose setters
  the controller calls, is not among the sources. Following sections 3 and 4.5 of the
  specification, a setter writes one condition of the request through the status
  synchronizer: when the write succeeds the request carries the condition, when it fails
  the request is left as it was and the error is returned. The text a setter is given is
  stored as the condition's reason and as its message.
\<close>

definition UpdateCondition :: "api \<Rightarrow> condition \<Rightarrow> world \<Rightarrow> error option \<times> world" where
  "UpdateCondition api c w =
     (case api (length (Calls w)) of
        Some e \<Rightarrow> (Some e, w\<lparr>Calls := Calls w @ [CallUpdateStatus c]\<rparr>)
      | None \<Rightarrow>
          (None, w\<lparr>Request := (Request w)\<lparr>Conditions := SetStatusCondition (Conditions (Request w)) c\<rparr>,
                   Calls := Calls w @ [CallUpdateStatus c]\<rparr>))"

text \<open>
  Modelled from the spec: section 4.1, ``sets \<open>DurationsValid=False\<close> with the offending
  field named in the message''.
\<close>

definition SetRequestDurationsNotValid :: "api \<Rightarrow> string \<Rightarrow> world \<Rightarrow> error option \<times> world" where
  "SetRequestDurationsNotValid api msg =
     UpdateCondition api \<lparr>Type = ConditionRequestDurationsValid, Status = ConditionFalse,
                          Reason = msg, Message = msg\<rparr>"

text \<open>
  Modelled from the spec: section 4.1, ``sets \<open>DurationsValid=True\<close> with the chosen-branch
  reason''.
\<close>

definition SetRequestDurationsValid :: "api \<Rightarrow> string \<Rightarrow> world \<Rightarrow> error option \<times> world" where
  "SetRequestDurationsValid api reasonStr =
     UpdateCondition api \<lparr>Type = ConditionRequestDurationsValid, Status = ConditionTrue,
                          Reason = reasonStr, Message = reasonStr\<rparr>"

text \<open>
  Modelled from the spec: section 4.2, ``set \<open>AccessStillValid=False\<close> with reason
  "expired"''.
\<close>

definition SetAccessNotValid :: "api \<Rightarrow> world \<Rightarrow> error option \<times> world" where
  "SetAccessNotValid api =
     UpdateCondition api \<lparr>Type = ConditionAccessStillValid, Status = ConditionFalse,
                          Reason = ''expired'', Message = ''expired''\<rparr>"

text \<open>
  Modelled from the spec: section 4.2, ``set \<open>AccessStillValid=True\<close>''. The setter receives
  neither the resolved duration nor the remaining time, so the text it writes is fixed.
\<close>

definition SetAccessStillValid :: "api \<Rightarrow> world \<Rightarrow> error option \<times> world" where
  "SetAccessStillValid api =
     UpdateCondition api \<lparr>Type = ConditionAccessStillValid, Status = ConditionTrue,
                          Reason = ''Access still valid'', Message = ''Access still valid''\<rparr>"

section \<open>The request controller\<close>

text \<open>
  The block of \<open>verifyDuration\<close> that chooses \<open>accessDuration\<close> and \<open>reasonStr\<close> from the
  three parsed durations.
\<close>

definition chooseAccessDuration :: "duration \<Rightarrow> duration \<Rightarrow> duration \<Rightarrow> string \<times> duration" where
  "chooseAccessDuration requestedDuration templateDefaultDuration templateMaxDuration =
     (if requestedDuration = 0 then
        (''Access request duration defaulting to template duration time (''
           @ durationString templateDefaultDuration @ '')'',
         templateDefaultDuration)
      else if requestedDuration \<le> templateMaxDuration then
        (''Access requested custom duration ('' @ durationString requestedDuration @ '')'',
         requestedDuration)
      else
        (''Access requested duration ('' @ durationString requestedDuration
           @ '') larger than template maximum duration (''
           @ durationString templateMaxDuration @ '')'',
         templateMaxDuration))"

definition verifyDuration :: "api \<Rightarrow> template \<Rightarrow> world \<Rightarrow> error option \<times> world" where
  "verifyDuration api tmpl w =
     (case GetDuration (Request w) of
        Inl err \<Rightarrow>
          (Some err,
           snd (SetRequestDurationsNotValid api (''spec.duration error: '' @ errorString err) w))
      | Inr requestedDuration \<Rightarrow>
     (case GetDefaultDuration tmpl of
        Inl err \<Rightarrow>
          (Some err,
           snd (SetRequestDurationsNotValid api
                  (''Template Error, spec.defaultDuration error: '' @ errorString err) w))
      | Inr templateDefaultDuration \<Rightarrow>
     (case GetMaxDuration tmpl of
        Inl err \<Rightarrow>
          (Some err,
           snd (SetRequestDurationsNotValid api
                  (''Template Error, spec.maxDuration error: '' @ errorString err) w))
      | Inr templateMaxDuration \<Rightarrow>
     (case chooseAccessDuration requestedDuration templateDefaultDuration templateMaxDuration of
        (reasonStr, accessDuration) \<Rightarrow>
     (case SetRequestDurationsValid api reasonStr w of
        (Some err, w1) \<Rightarrow> (Some err, w1)
      | (None, w1) \<Rightarrow>
          if GetUptime (Request w1) > accessDuration
          then SetAccessNotValid api w1
          else SetAccessStillValid api w1)))))"

text \<open>
  \<open>DeleteResource\<close> hands the request to the client's \<open>Delete\<close>.
\<close>

definition DeleteResource :: "api \<Rightarrow> world \<Rightarrow> error option \<times> world" where
  "DeleteResource api w =
     (case api (length (Calls w)) of
        Some e \<Rightarrow> (Some e, w\<lparr>Calls := Calls w @ [CallDelete]\<rparr>)
      | None \<Rightarrow> (None, w\<lparr>Deleted := True, Calls := Calls w @ [CallDelete]\<rparr>))"

definition isAccessExpired :: "api \<Rightarrow> world \<Rightarrow> (bool \<times> error option) \<times> world" where
  "isAccessExpired api w =
     (case FindStatusCondition (Conditions (Request w)) ConditionAccessStillValid of
        None \<Rightarrow> ((False, None), w)
      | Some cond \<Rightarrow>
          if Status cond = ConditionFalse
          then (case DeleteResource api w of (err, w1) \<Rightarrow> ((True, err), w1))
          else ((False, None), w))"

text \<open>
  Modelled from the spec: section 4.4, step 5, ``on failure set \<open>ResourcesCreated=False\<close>''.
  The condition carries the text of the error.
\<close>

definition SetAccessResourcesNotCreated :: "api \<Rightarrow> error \<Rightarrow> world \<Rightarrow> error option \<times> world" where
  "SetAccessResourcesNotCreated api err =
     UpdateCondition api \<lparr>Type = ConditionAccessResourcesCreated, Status = ConditionFalse,
                          Reason = errorString err, Message = errorString err\<rparr>"

text \<open>
  Modelled from the spec: section 4.4, step 5, ``on success set \<open>ResourcesCreated=True\<close>'',
  with the status message of the builder.
\<close>

definition SetAccessResourcesCreated :: "api \<Rightarrow> string \<Rightarrow> world \<Rightarrow> error option \<times> world" where
  "SetAccessResourcesCreated api statusString =
     UpdateCondition api \<lparr>Type = ConditionAccessResourcesCreated, Status = ConditionTrue,
                          Reason = statusString, Message = statusString\<rparr>"

text \<open>
  \<open>verifyAccessResourcesBuilt\<close> calls the builder's \<open>GenerateAccessResources\<close>, which is
  a parameter here: any function that returns a status message or an error and may change
  the world.
\<close>

definition verifyAccessResourcesBuilt ::
  "api \<Rightarrow> (world \<Rightarrow> (error + string) \<times> world) \<Rightarrow> world \<Rightarrow> error option \<times> world" where
  "verifyAccessResourcesBuilt api GenerateAccessResources w =
     (case GenerateAccessResources w of
        (Inl err, w1) \<Rightarrow> (Some err, snd (SetAccessResourcesNotCreated api err w1))
      | (Inr statusString, w1) \<Rightarrow> SetAccessResourcesCreated api statusString w1)"

text \<open>
  Modelled from the spec: section 4.4, steps 3 and 4. The \<open>Reconcile\<close> function that calls
  \<open>verifyDuration\<close> and then \<open>isAccessExpired\<close> is not among the sources; the pass stops at
  the first error and at a deletion.
\<close>

datatype passResult = PassDeleted | PassAborted error | PassContinues

definition expirationSteps :: "api \<Rightarrow> template \<Rightarrow> world \<Rightarrow> passResult \<times> world" where
  "expirationSteps api tmpl w =
     (case verifyDuration api tmpl w of
        (Some err, w1) \<Rightarrow> (PassAborted err, w1)
      | (None, w1) \<Rightarrow>
          (case isAccessExpired api w1 of
             ((_, Some err), w2) \<Rightarrow> (PassAborted err, w2)
           | ((True, None), w2) \<Rightarrow> (PassDeleted, w2)
           | ((False, None), w2) \<Rightarrow> (PassContinues, w2)))"

section \<open>The exec access builder\<close>

text \<open>
  The helpers of \<open>internal\<close> and \<open>utils\<close> that \<open>CreateAccessResources\<close> calls are not among
  the sources; they are parameters. \<open>GetPod\<close> returns an error, no pod, or a pod.
\<close>

record collaborators =
  GetPod :: "request \<Rightarrow> template \<Rightarrow> error + pod option"
  CreateRole :: "request \<Rightarrow> policyRule list \<Rightarrow> error + role"
  CreateRoleBinding :: "request \<Rightarrow> template \<Rightarrow> role \<Rightarrow> error + roleBinding"
  CreateAccessCommand :: "string \<Rightarrow> pod \<Rightarrow> error + string"

text \<open>
  Modelled from the spec: section 4.3, step 6, and the comment at the call. \<open>SetPodName\<close>
  is a method of \<open>ExecAccessRequest\<close>, outside the sources: it sets \<open>Status.PodName\<close> and
  fails only when the field is already set.
\<close>

definition SetPodName :: "string \<Rightarrow> request \<Rightarrow> error + request" where
  "SetPodName n r =
     (if PodName r \<noteq> [] then Inl (Error ''Status.PodName already set'')
      else Inr (r\<lparr>PodName := n\<rparr>))"

text \<open>The two policy rules, as a function of the name of the target pod.\<close>

definition rules :: "string \<Rightarrow> policyRule list" where
  "rules targetPodName =
     [\<lparr>APIGroups = [[]], Resources = [''pods''], ResourceNames = [targetPodName],
       Verbs = [''get'', ''list'', ''watch'']\<rparr>,
      \<lparr>APIGroups = [[]], Resources = [''pods/exec''], ResourceNames = [targetPodName],
       Verbs = [''create'', ''update'', ''delete'', ''get'', ''list'']\<rparr>]"

definition CreateAccessResources ::
  "collaborators \<Rightarrow> api \<Rightarrow> template \<Rightarrow> world \<Rightarrow> (error + string) \<times> world" where
  "CreateAccessResources co api tmpl w =
     (if PodName (Request w) \<noteq> [] then
        (Inr (''Pod already assigned -'' @ GetName (Request w)), w)
      else
        (let w1 = w\<lparr>Calls := Calls w @ [CallGetPod]\<rparr>;
             notFound = Error (''targetPod not found '' @ GetName (Request w))
         in case GetPod co (Request w) tmpl of
              Inl err \<Rightarrow> (Inl notFound, w1)
            | Inr None \<Rightarrow> (Inl notFound, w1)
            | Inr (Some targetPod) \<Rightarrow>
        (let w2 = w1\<lparr>Calls := Calls w1 @ [CallCreateRole (rules (podName targetPod))]\<rparr>
         in case CreateRole co (Request w) (rules (podName targetPod)) of
              Inl err \<Rightarrow> (Inl err, w2)
            | Inr role \<Rightarrow>
        (let w3 = w2\<lparr>Calls := Calls w2 @ [CallCreateRoleBinding (roleName role)]\<rparr>
         in case CreateRoleBinding co (Request w) tmpl role of
              Inl err \<Rightarrow> (Inl err, w3)
            | Inr rb \<Rightarrow>
        (case CreateAccessCommand co (AccessCommand tmpl) targetPod of
              Inl err \<Rightarrow> (Inl err, w3)
            | Inr accessString \<Rightarrow>
        (let w4 = w3\<lparr>Request := (Request w3)\<lparr>AccessMessage := accessString\<rparr>,
                     Calls := Calls w3 @ [CallStatusUpdate]\<rparr>
         in case api (length (Calls w3)) of
              Some err \<Rightarrow> (Inl err, w4)
            | None \<Rightarrow>
        (case SetPodName (podName targetPod) (Request w4) of
              Inl err \<Rightarrow> (Inl err, w4)
            | Inr r \<Rightarrow>
                (Inr (''Success. Role '' @ roleName role @ '', RoleBinding '' @ bindingName rb
                        @ '' created''),
                 w4\<lparr>Request := r\<rparr>))))))))"

section \<open>The command-line front end\<close>

text \<open>
  The wait loop of \<open>createExecAccessRequestCmd\<close>. The environment answers the \<open>k\<close>-th
  \<open>Get\<close> with the time the call took and either an error or the request as the server has
  it; \<open>IsReady\<close> is a method outside the sources, so its result is part of the answer. The
  clock counts nanoseconds since the wait context was created, and the context has expired
  once the clock has reached the wait duration.
\<close>

record observed =
  IsReady :: bool
  GetConditions :: "condition list"

datatype printed =
    PrintGetError error
  | PrintSuccess
  | PrintTimedOut
  | PrintCondition requestCondition conditionStatus string string
  | PrintDot

datatype finish = Break | Exit nat

record cli =
  clock :: nat
  gets :: nat
  req :: observed
  out :: "printed list"

fun printCondition :: "condition \<Rightarrow> printed" where
  "printCondition c = PrintCondition (Type c) (Status c) (Reason c) (Message c)"

fun waitLoop ::
  "nat \<Rightarrow> (nat \<Rightarrow> nat \<times> (error + observed)) \<Rightarrow> nat \<Rightarrow> cli \<Rightarrow> (finish \<times> cli) option" where
  "waitLoop 0 KubeGet waitDuration s = None"
| "waitLoop (Suc fuel) KubeGet waitDuration s =
     (case KubeGet (gets s) of
        (took, answer) \<Rightarrow>
          (let s1 = s\<lparr>clock := clock s + took, gets := gets s + 1\<rparr>
           in case answer of
                Inl err \<Rightarrow>
                  waitLoop fuel KubeGet waitDuration (s1\<lparr>out := out s1 @ [PrintGetError err]\<rparr>)
              | Inr r \<Rightarrow>
                  (let s2 = s1\<lparr>req := r\<rparr>
                   in if IsReady r then Some (Break, s2\<lparr>out := out s2 @ [PrintSuccess]\<rparr>)
                      else if waitDuration \<le> clock s2 then
                        Some (Exit 1,
                              s2\<lparr>out := out s2 @ PrintTimedOut # map printCondition (GetConditions r)\<rparr>)
                      else
                        waitLoop fuel KubeGet waitDuration
                          (s2\<lparr>clock := clock s2 + 1000000000, out := out s2 @ [PrintDot]\<rparr>))))"

section \<open>Observations\<close>

text \<open>
  Names for what the theorems observe: the duration \<open>verifyDuration\<close> resolves, the
  conditions the setters write, the reason of the \<open>DurationsValid\<close> condition of a world
  and whether a text contains a word.
\<close>

definition resolved :: "duration \<Rightarrow> duration \<Rightarrow> duration \<Rightarrow> duration" where
  "resolved d df mx = snd (chooseAccessDuration d df mx)"

definition durationsValid :: "string \<Rightarrow> condition" where
  "durationsValid reasonStr =
     \<lparr>Type = ConditionRequestDurationsValid, Status = ConditionTrue,
      Reason = reasonStr, Message = reasonStr\<rparr>"

definition durationsValidReason :: "world \<Rightarrow> string option" where
  "durationsValidReason w =
     map_option Reason
       (FindStatusCondition (Conditions (Request w)) ConditionRequestDurationsValid)"

fun mentions :: "string \<Rightarrow> string option \<Rightarrow> bool" where
  "mentions word None = False"
| "mentions word (Some text) = sublist word text"

definition durationsNotValid :: "string \<Rightarrow> condition" where
  "durationsNotValid msg =
     \<lparr>Type = ConditionRequestDurationsValid, Status = ConditionFalse,
      Reason = msg, Message = msg\<rparr>"

definition accessExpired :: condition where
  "accessExpired =
     \<lparr>Type = ConditionAccessStillValid, Status = ConditionFalse,
      Reason = ''expired'', Message = ''expired''\<rparr>"

definition accessValid :: condition where
  "accessValid =
     \<lparr>Type = ConditionAccessStillValid, Status = ConditionTrue,
      Reason = ''Access still valid'', Message = ''Access still valid''\<rparr>"

text \<open>
  What an unparsable duration does to a pass: \<open>verifyDuration\<close> returns the parse error,
  the pass is aborted with it, exactly one status write is made, which sets
  \<open>DurationsValid=False\<close> with a message that starts with the name of the field, and the
  other conditions of the request are as they were.
\<close>

definition unparsable :: "string \<Rightarrow> error \<Rightarrow> api \<Rightarrow> template \<Rightarrow> world \<Rightarrow> bool" where
  "unparsable field err api tmpl w =
     (let w' = snd (verifyDuration api tmpl w); msg = field @ '' error: '' @ errorString err
      in fst (verifyDuration api tmpl w) = Some err \<and>
         expirationSteps api tmpl w = (PassAborted err, w') \<and>
         Calls w' = Calls w @ [CallUpdateStatus (durationsNotValid msg)] \<and>
         (if api (length (Calls w)) = None
          then FindStatusCondition (Conditions (Request w')) ConditionRequestDurationsValid =
                 Some (durationsNotValid msg)
          else True) \<and>
         list_all (\<lambda>t. FindStatusCondition (Conditions (Request w')) t =
                        FindStatusCondition (Conditions (Request w)) t)
           [ConditionAccessStillValid, ConditionAccessResourcesCreated,
            ConditionAccessResourcesReady])"

text \<open>
  Successive invocations of \<open>CreateAccessResources\<close> on one request, each with collaborators,
  an API script and a template of its own.
\<close>

fun invocations :: "(collaborators \<times> api \<times> template) list \<Rightarrow> world \<Rightarrow> world" where
  "invocations [] w = w"
| "invocations ((co, api, tmpl) # later) w =
     invocations later (snd (CreateAccessResources co api tmpl w))"

text \<open>The two values of the \<open>ResourcesCreated\<close> condition.\<close>

definition resourcesNotCreated :: "error \<Rightarrow> condition" where
  "resourcesNotCreated err =
     \<lparr>Type = ConditionAccessResourcesCreated, Status = ConditionFalse,
      Reason = errorString err, Message = errorString err\<rparr>"

definition resourcesCreated :: "string \<Rightarrow> condition" where
  "resourcesCreated statusString =
     \<lparr>Type = ConditionAccessResourcesCreated, Status = ConditionTrue,
      Reason = statusString, Message = statusString\<rparr>"

text \<open>An API server that answers every \<open>Get\<close> with the same error, after the same time.\<close>

definition getAlwaysFails :: "nat \<Rightarrow> error \<Rightarrow> nat \<Rightarrow> nat \<times> (error + observed)" where
  "getAlwaysFails took err k = (took, Inl err)"

section \<open>Example inputs\<close>

text \<open>
  A request for five hours against a template that defaults to thirty minutes and allows
  two hours, seen thirty-one minutes after its creation.
\<close>

definition exampleRequest :: request where
  "exampleRequest =
     \<lparr>GetName = ''alice-x7k2p'', GetDuration = Inr (5 * Hour), GetUptime = 31 * Minute,
      Conditions = [], PodName = [], AccessMessage = []\<rparr>"

definition exampleTemplate :: template where
  "exampleTemplate =
     \<lparr>GetDefaultDuration = Inr (30 * Minute), GetMaxDuration = Inr (2 * Hour),
      AccessCommand = ''kubectl exec -ti''\<rparr>"

definition exampleWorld :: world where
  "exampleWorld = \<lparr>Request = exampleRequest, Deleted = False, Calls = []\<rparr>"

text \<open>The error of a duration string that does not parse.\<close>

definition badDuration :: error where
  "badDuration = Error ''time: unknown unit x in duration 5x''"

text \<open>
  Collaborators that select the pod \<open>web-7d9f\<close> and create what they are asked for, and
  collaborators that find no pod.
\<close>

definition examplePod :: pod where
  "examplePod = \<lparr>podName = ''web-7d9f'', podNamespace = ''default''\<rparr>"

definition exampleCollaborators :: collaborators where
  "exampleCollaborators =
     \<lparr>GetPod = (\<lambda>r t. Inr (Some examplePod)),
      CreateRole = (\<lambda>r rs. Inr \<lparr>roleName = GetName r, roleRules = rs\<rparr>),
      CreateRoleBinding = (\<lambda>r t ro. Inr \<lparr>bindingName = GetName r, bindingRole = roleName ro\<rparr>),
      CreateAccessCommand = (\<lambda>c p. Inr (c @ '' '' @ podName p))\<rparr>"

definition noPodCollaborators :: collaborators where
  "noPodCollaborators = exampleCollaborators\<lparr>GetPod := (\<lambda>r t. Inr None)\<rparr>"

section \<open>Conditions and status writes\<close>

lemmas example_defs = exampleRequest_def exampleTemplate_def exampleWorld_def apiOk_def

lemmas eval_defs = durationString_def fmtFrac_def fmtFracLoop.simps fmtInt.simps digitChar_def
  Hour_def Minute_def Second_def chooseAccessDuration_def Let_def

lemma Find_Set_same:
  "Type c = t \<Longrightarrow> FindStatusCondition (SetStatusCondition cs c) t = Some c"
  by (induction cs) auto

lemma Find_Set_other:
  "t \<noteq> Type c \<Longrightarrow> FindStatusCondition (SetStatusCondition cs c) t = FindStatusCondition cs t"
  by (induction cs) simp_all

lemma UpdateCondition_ok:
  "api (length (Calls w)) = None \<Longrightarrow>
   UpdateCondition api c w =
     (None, w\<lparr>Request := (Request w)\<lparr>Conditions := SetStatusCondition (Conditions (Request w)) c\<rparr>,
              Calls := Calls w @ [CallUpdateStatus c]\<rparr>)"
  by (simp add: UpdateCondition_def)

lemma UpdateCondition_calls:
  "Calls (snd (UpdateCondition api c w)) = Calls w @ [CallUpdateStatus c]"
  by (simp add: UpdateCondition_def split: option.splits)

lemma UpdateCondition_fst:
  "fst (UpdateCondition api c w) = api (length (Calls w))"
  by (simp add: UpdateCondition_def split: option.splits)

lemma UpdateCondition_other:
  "t \<noteq> Type c \<Longrightarrow>
   FindStatusCondition (Conditions (Request (snd (UpdateCondition api c w)))) t =
   FindStatusCondition (Conditions (Request w)) t"
  by (simp add: UpdateCondition_def Find_Set_other split: option.splits)

lemma verifyDuration_parsed:
  assumes "GetDuration (Request w) = Inr d" "GetDefaultDuration tmpl = Inr df"
    "GetMaxDuration tmpl = Inr mx"
  shows "verifyDuration api tmpl w =
    (case SetRequestDurationsValid api (fst (chooseAccessDuration d df mx)) w of
       (Some err, w1) \<Rightarrow> (Some err, w1)
     | (None, w1) \<Rightarrow>
         if GetUptime (Request w1) > snd (chooseAccessDuration d df mx)
         then SetAccessNotValid api w1 else SetAccessStillValid api w1)"
  using assms by (simp add: verifyDuration_def split: prod.splits)

lemma verifyDuration_first_write:
  assumes "GetDuration (Request w) = Inr d" "GetDefaultDuration tmpl = Inr df"
    "GetMaxDuration tmpl = Inr mx" "api (length (Calls w)) = None"
  shows "FindStatusCondition (Conditions (Request (snd (verifyDuration api tmpl w))))
           ConditionRequestDurationsValid =
         Some (durationsValid (fst (chooseAccessDuration d df mx)))"
  using assms
  by (simp add: verifyDuration_parsed SetRequestDurationsValid_def SetAccessNotValid_def
      SetAccessStillValid_def UpdateCondition_ok UpdateCondition_other Find_Set_same
      durationsValid_def)

section \<open>The duration policy\<close>

text \<open>
  Claim C1. When the three durations parse, \<open>verifyDuration\<close> resolves the access duration
  to the template's default when the requested duration is zero, to the requested duration
  when it is greater than zero and at most the template's maximum, and to the template's
  maximum when a requested duration is present and exceeds it. When the status write
  succeeds the request carries \<open>DurationsValid=True\<close> with the reason of the branch taken,
  and the resolved duration is the one the age of the request is compared with.
\<close>

theorem verifyDuration_resolution:
  assumes "GetDuration (Request w) = Inr d" "GetDefaultDuration tmpl = Inr df"
    "GetMaxDuration tmpl = Inr mx"
  shows "(d = 0 \<longrightarrow> resolved d df mx = df \<and>
            fst (chooseAccessDuration d df mx) =
              ''Access request duration defaulting to template duration time (''
                @ durationString df @ '')'') \<and>
         (0 < d \<and> d \<le> mx \<longrightarrow> resolved d df mx = d \<and>
            fst (chooseAccessDuration d df mx) =
              ''Access requested custom duration ('' @ durationString d @ '')'') \<and>
         (d \<noteq> 0 \<and> mx < d \<longrightarrow> resolved d df mx = mx \<and>
            fst (chooseAccessDuration d df mx) =
              ''Access requested duration ('' @ durationString d
                @ '') larger than template maximum duration ('' @ durationString mx @ '')'') \<and>
         (api (length (Calls w)) = None \<longrightarrow>
            FindStatusCondition (Conditions (Request (snd (verifyDuration api tmpl w))))
              ConditionRequestDurationsValid =
            Some (durationsValid (fst (chooseAccessDuration d df mx)))) \<and>
         (api (length (Calls w)) = None \<and> api (Suc (length (Calls w))) = None \<longrightarrow>
            map_option Status
              (FindStatusCondition (Conditions (Request (snd (verifyDuration api tmpl w))))
                 ConditionAccessStillValid) =
            Some (if GetUptime (Request w) > resolved d df mx then ConditionFalse
                  else ConditionTrue))"
proof -
  have branches: "(d = 0 \<longrightarrow> resolved d df mx = df \<and>
            fst (chooseAccessDuration d df mx) =
              ''Access request duration defaulting to template duration time (''
                @ durationString df @ '')'') \<and>
         (0 < d \<and> d \<le> mx \<longrightarrow> resolved d df mx = d \<and>
            fst (chooseAccessDuration d df mx) =
              ''Access requested custom duration ('' @ durationString d @ '')'') \<and>
         (d \<noteq> 0 \<and> mx < d \<longrightarrow> resolved d df mx = mx \<and>
            fst (chooseAccessDuration d df mx) =
              ''Access requested duration ('' @ durationString d
                @ '') larger than template maximum duration ('' @ durationString mx @ '')'')"
    by (simp add: resolved_def chooseAccessDuration_def)
  have expiry: "map_option Status
              (FindStatusCondition (Conditions (Request (snd (verifyDuration api tmpl w))))
                 ConditionAccessStillValid) =
            Some (if GetUptime (Request w) > resolved d df mx then ConditionFalse
                  else ConditionTrue)"
    if "api (length (Calls w)) = None" "api (Suc (length (Calls w))) = None"
    using that assms
    by (simp add: verifyDuration_parsed SetRequestDurationsValid_def SetAccessNotValid_def
        SetAccessStillValid_def UpdateCondition_ok Find_Set_same resolved_def)
  from branches expiry verifyDuration_first_write [OF assms] show ?thesis
    by blast
qed

theorem verifyDuration_resolution_witness:
  "GetDuration (Request (exampleWorld\<lparr>Request := exampleRequest\<lparr>GetDuration := Inr 0\<rparr>\<rparr>)) = Inr 0 \<and>
   GetDefaultDuration exampleTemplate = Inr (30 * Minute) \<and>
   GetMaxDuration exampleTemplate = Inr (2 * Hour) \<and>
   apiOk 0 = None \<and> apiOk (Suc 0) = None \<and>
   resolved 0 (30 * Minute) (2 * Hour) = 30 * Minute \<and>
   FindStatusCondition
     (Conditions (Request (snd (verifyDuration apiOk exampleTemplate
        (exampleWorld\<lparr>Request := exampleRequest\<lparr>GetDuration := Inr 0\<rparr>\<rparr>)))))
     ConditionRequestDurationsValid =
   Some (durationsValid ''Access request duration defaulting to template duration time (30m0s)'') \<and>
   map_option Status
     (FindStatusCondition
        (Conditions (Request (snd (verifyDuration apiOk exampleTemplate
           (exampleWorld\<lparr>Request := exampleRequest\<lparr>GetDuration := Inr 0\<rparr>\<rparr>)))))
        ConditionAccessStillValid) = Some ConditionFalse \<and>
   GetDuration (Request (exampleWorld\<lparr>Request := exampleRequest\<lparr>GetDuration := Inr Hour\<rparr>\<rparr>)) = Inr Hour \<and>
   0 < Hour \<and> Hour \<le> 2 * Hour \<and>
   resolved Hour (30 * Minute) (2 * Hour) = Hour \<and>
   FindStatusCondition
     (Conditions (Request (snd (verifyDuration apiOk exampleTemplate
        (exampleWorld\<lparr>Request := exampleRequest\<lparr>GetDuration := Inr Hour\<rparr>\<rparr>)))))
     ConditionRequestDurationsValid =
   Some (durationsValid ''Access requested custom duration (1h0m0s)'') \<and>
   GetDuration (Request exampleWorld) = Inr (5 * Hour) \<and>
   5 * Hour \<noteq> 0 \<and> 2 * Hour < 5 * Hour \<and>
   resolved (5 * Hour) (30 * Minute) (2 * Hour) = 2 * Hour \<and>
   map_option Status
     (FindStatusCondition
        (Conditions (Request (snd (verifyDuration apiOk exampleTemplate exampleWorld))))
        ConditionAccessStillValid) = Some ConditionTrue"
  using verifyDuration_resolution
    [of "exampleWorld\<lparr>Request := exampleRequest\<lparr>GetDuration := Inr 0\<rparr>\<rparr>" 0
        exampleTemplate "30 * Minute" "2 * Hour" apiOk]
    verifyDuration_resolution
    [of "exampleWorld\<lparr>Request := exampleRequest\<lparr>GetDuration := Inr Hour\<rparr>\<rparr>" Hour
        exampleTemplate "30 * Minute" "2 * Hour" apiOk]
    verifyDuration_resolution
    [of exampleWorld "5 * Hour" exampleTemplate "30 * Minute" "2 * Hour" apiOk]
  by (auto simp add: example_defs eval_defs)

text \<open>
  Claim C8, as amended. When a requested duration is present and exceeds the template's
  maximum, the resolved duration is the maximum and the \<open>DurationsValid\<close> condition is
  \<open>True\<close> with the reason ``Access requested duration (\<open>d\<close>) larger than template maximum
  duration (\<open>max\<close>)'', a sentence that names both durations.
\<close>

theorem verifyDuration_above_maximum:
  assumes "GetDuration (Request w) = Inr d" "GetDefaultDuration tmpl = Inr df"
    "GetMaxDuration tmpl = Inr mx" "d \<noteq> 0" "mx < d" "api (length (Calls w)) = None"
  shows "resolved d df mx = mx \<and>
         durationsValidReason (snd (verifyDuration api tmpl w)) =
           Some (''Access requested duration ('' @ durationString d
                   @ '') larger than template maximum duration ('' @ durationString mx @ '')'') \<and>
         map_option Status
           (FindStatusCondition (Conditions (Request (snd (verifyDuration api tmpl w))))
              ConditionRequestDurationsValid) = Some ConditionTrue"
proof -
  have "fst (chooseAccessDuration d df mx) =
          ''Access requested duration ('' @ durationString d
            @ '') larger than template maximum duration ('' @ durationString mx @ '')''"
    and "resolved d df mx = mx"
    using assms(4,5) by (simp_all add: chooseAccessDuration_def resolved_def)
  with verifyDuration_first_write [where api = api, OF assms(1-3) assms(6)] show ?thesis
    by (simp add: durationsValidReason_def durationsValid_def)
qed

theorem verifyDuration_above_maximum_witness:
  "GetDuration (Request exampleWorld) = Inr (5 * Hour) \<and>
   GetDefaultDuration exampleTemplate = Inr (30 * Minute) \<and>
   GetMaxDuration exampleTemplate = Inr (2 * Hour) \<and>
   5 * Hour \<noteq> 0 \<and> 2 * Hour < 5 * Hour \<and> apiOk (length (Calls exampleWorld)) = None \<and>
   resolved (5 * Hour) (30 * Minute) (2 * Hour) = 2 * Hour \<and>
   durationsValidReason (snd (verifyDuration apiOk exampleTemplate exampleWorld)) =
     Some ''Access requested duration (5h0m0s) larger than template maximum duration (2h0m0s)''"
  using verifyDuration_above_maximum
    [of exampleWorld "5 * Hour" exampleTemplate "30 * Minute" "2 * Hour" apiOk]
  by (simp add: example_defs eval_defs)

lemma exampleWorld_reason:
  "durationsValidReason (snd (verifyDuration apiOk exampleTemplate exampleWorld)) =
     Some ''Access requested duration (5h0m0s) larger than template maximum duration (2h0m0s)''"
  by (simp add: durationsValidReason_def verifyDuration_def example_defs eval_defs
      SetRequestDurationsValid_def SetAccessNotValid_def SetAccessStillValid_def
      UpdateCondition_def)

text \<open>
  Claim C8, as stated, fails: for a request of five hours against a maximum of two hours
  the reason reads ``Access requested duration (5h0m0s) larger than template maximum
  duration (2h0m0s)'' and does not contain the word ``clamp'' in any form.
\<close>

theorem reason_does_not_say_clamped:
  "durationsValidReason (snd (verifyDuration apiOk exampleTemplate exampleWorld)) =
     Some ''Access requested duration (5h0m0s) larger than template maximum duration (2h0m0s)'' \<and>
   \<not> mentions ''clamp''
       (durationsValidReason (snd (verifyDuration apiOk exampleTemplate exampleWorld)))"
  by (simp add: exampleWorld_reason sublist_Cons_right)

section \<open>The expiration guard\<close>

text \<open>
  Claim C10. A request that carries no \<open>AccessStillValid\<close> condition at all is not expired
  for \<open>isAccessExpired\<close>: it returns \<open>(false, nil)\<close>, calls nothing and deletes nothing.
\<close>

theorem isAccessExpired_missing_condition:
  "FindStatusCondition (Conditions (Request w)) ConditionAccessStillValid = None \<Longrightarrow>
   isAccessExpired api w = ((False, None), w)"
  by (simp add: isAccessExpired_def)

theorem isAccessExpired_missing_condition_witness:
  "FindStatusCondition (Conditions (Request exampleWorld)) ConditionAccessStillValid = None \<and>
   isAccessExpired apiOk exampleWorld = ((False, None), exampleWorld)"
  using isAccessExpired_missing_condition [of exampleWorld apiOk]
  by (simp add: example_defs)

text \<open>
  Claim C4. When the \<open>AccessStillValid\<close> condition is present with status \<open>False\<close>,
  \<open>isAccessExpired\<close> calls \<open>Delete\<close> and returns \<open>true\<close> together with the error of that
  call, so the request is deleted whenever the call succeeds. With any other status it
  returns \<open>(false, nil)\<close> and leaves everything as it was.
\<close>

theorem isAccessExpired_by_status:
  "FindStatusCondition (Conditions (Request w)) ConditionAccessStillValid = Some cond \<Longrightarrow>
   (Status cond = ConditionFalse \<longrightarrow>
      fst (isAccessExpired api w) = (True, api (length (Calls w))) \<and>
      Calls (snd (isAccessExpired api w)) = Calls w @ [CallDelete] \<and>
      (api (length (Calls w)) = None \<longrightarrow> Deleted (snd (isAccessExpired api w)))) \<and>
   (Status cond \<noteq> ConditionFalse \<longrightarrow> isAccessExpired api w = ((False, None), w))"
  by (simp add: isAccessExpired_def DeleteResource_def split: option.splits)


theorem isAccessExpired_by_status_witness:
  "FindStatusCondition
     (Conditions (Request (exampleWorld\<lparr>Request := exampleRequest\<lparr>Conditions := [accessExpired]\<rparr>\<rparr>)))
     ConditionAccessStillValid = Some accessExpired \<and>
   Status accessExpired = ConditionFalse \<and>
   fst (isAccessExpired apiOk
     (exampleWorld\<lparr>Request := exampleRequest\<lparr>Conditions := [accessExpired]\<rparr>\<rparr>)) = (True, None) \<and>
   Deleted (snd (isAccessExpired apiOk
     (exampleWorld\<lparr>Request := exampleRequest\<lparr>Conditions := [accessExpired]\<rparr>\<rparr>))) \<and>
   FindStatusCondition
     (Conditions (Request (exampleWorld\<lparr>Request := exampleRequest\<lparr>Conditions := [accessValid]\<rparr>\<rparr>)))
     ConditionAccessStillValid = Some accessValid \<and>
   Status accessValid \<noteq> ConditionFalse \<and>
   isAccessExpired apiOk
     (exampleWorld\<lparr>Request := exampleRequest\<lparr>Conditions := [accessValid]\<rparr>\<rparr>) =
     ((False, None), exampleWorld\<lparr>Request := exampleRequest\<lparr>Conditions := [accessValid]\<rparr>\<rparr>)"
  using isAccessExpired_by_status
    [of "exampleWorld\<lparr>Request := exampleRequest\<lparr>Conditions := [accessExpired]\<rparr>\<rparr>"
        accessExpired apiOk]
    isAccessExpired_by_status
    [of "exampleWorld\<lparr>Request := exampleRequest\<lparr>Conditions := [accessValid]\<rparr>\<rparr>"
        accessValid apiOk]
  by (simp add: example_defs accessExpired_def accessValid_def)

text \<open>
  Claim C2. In the steps of a pass that resolve the duration and then check expiry, with the
  durations parsed: a request whose age exceeds the resolved duration gets
  \<open>AccessStillValid=False\<close> with reason ``expired'' and is then deleted in the same pass,
  the condition write preceding the \<open>Delete\<close>, when the calls to the API succeed; a request
  whose age does not exceed it is never deleted by these steps, whatever the API does, and
  gets \<open>AccessStillValid=True\<close> when the status writes succeed.
\<close>

theorem expirationSteps_by_age:
  assumes "GetDuration (Request w) = Inr d" "GetDefaultDuration tmpl = Inr df"
    "GetMaxDuration tmpl = Inr mx"
  shows "(GetUptime (Request w) > resolved d df mx \<and> api (length (Calls w)) = None \<and>
          api (Suc (length (Calls w))) = None \<and> api (Suc (Suc (length (Calls w)))) = None \<longrightarrow>
            fst (expirationSteps api tmpl w) = PassDeleted \<and>
            Deleted (snd (expirationSteps api tmpl w)) \<and>
            FindStatusCondition (Conditions (Request (snd (expirationSteps api tmpl w))))
              ConditionAccessStillValid = Some accessExpired \<and>
            Calls (snd (expirationSteps api tmpl w)) =
              Calls w @ [CallUpdateStatus (durationsValid (fst (chooseAccessDuration d df mx))),
                         CallUpdateStatus accessExpired, CallDelete]) \<and>
         (\<not> GetUptime (Request w) > resolved d df mx \<longrightarrow>
            fst (expirationSteps api tmpl w) \<noteq> PassDeleted \<and>
            Deleted (snd (expirationSteps api tmpl w)) = Deleted w \<and>
            filter (\<lambda>c. c = CallDelete) (Calls (snd (expirationSteps api tmpl w))) =
              filter (\<lambda>c. c = CallDelete) (Calls w) \<and>
            (api (length (Calls w)) = None \<and> api (Suc (length (Calls w))) = None \<longrightarrow>
               fst (expirationSteps api tmpl w) = PassContinues \<and>
               FindStatusCondition (Conditions (Request (snd (expirationSteps api tmpl w))))
                 ConditionAccessStillValid = Some accessValid \<and>
               Calls (snd (expirationSteps api tmpl w)) =
                 Calls w @ [CallUpdateStatus (durationsValid (fst (chooseAccessDuration d df mx))),
                            CallUpdateStatus accessValid]))"
proof (intro conjI impI)
  assume a: "GetUptime (Request w) > resolved d df mx \<and> api (length (Calls w)) = None \<and>
          api (Suc (length (Calls w))) = None \<and> api (Suc (Suc (length (Calls w)))) = None"
  with assms show "fst (expirationSteps api tmpl w) = PassDeleted"
    and "Deleted (snd (expirationSteps api tmpl w))"
    and "FindStatusCondition (Conditions (Request (snd (expirationSteps api tmpl w))))
              ConditionAccessStillValid = Some accessExpired"
    and "Calls (snd (expirationSteps api tmpl w)) =
              Calls w @ [CallUpdateStatus (durationsValid (fst (chooseAccessDuration d df mx))),
                         CallUpdateStatus accessExpired, CallDelete]"
    by (simp_all add: expirationSteps_def verifyDuration_parsed SetRequestDurationsValid_def
      SetAccessNotValid_def SetAccessStillValid_def UpdateCondition_ok Find_Set_same
      isAccessExpired_def DeleteResource_def resolved_def durationsValid_def
      accessExpired_def accessValid_def)
next
  assume young: "\<not> GetUptime (Request w) > resolved d df mx"
  show "fst (expirationSteps api tmpl w) \<noteq> PassDeleted"
    and "Deleted (snd (expirationSteps api tmpl w)) = Deleted w"
    and "filter (\<lambda>c. c = CallDelete) (Calls (snd (expirationSteps api tmpl w))) =
              filter (\<lambda>c. c = CallDelete) (Calls w)"
    using assms young
    by (auto simp: expirationSteps_def verifyDuration_parsed SetRequestDurationsValid_def
      SetAccessStillValid_def UpdateCondition_def Find_Set_same
      isAccessExpired_def resolved_def split: option.splits)
  assume ok: "api (length (Calls w)) = None \<and> api (Suc (length (Calls w))) = None"
  with assms young show "fst (expirationSteps api tmpl w) = PassContinues"
    and "FindStatusCondition (Conditions (Request (snd (expirationSteps api tmpl w))))
                 ConditionAccessStillValid = Some accessValid"
    and "Calls (snd (expirationSteps api tmpl w)) =
                 Calls w @ [CallUpdateStatus (durationsValid (fst (chooseAccessDuration d df mx))),
                            CallUpdateStatus accessValid]"
    by (simp_all add: expirationSteps_def verifyDuration_parsed SetRequestDurationsValid_def
      SetAccessNotValid_def SetAccessStillValid_def UpdateCondition_ok Find_Set_same
      isAccessExpired_def DeleteResource_def resolved_def durationsValid_def
      accessExpired_def accessValid_def)
qed

theorem expirationSteps_by_age_witness:
  "GetDuration (Request (exampleWorld\<lparr>Request := exampleRequest\<lparr>GetDuration := Inr 0\<rparr>\<rparr>)) = Inr 0 \<and>
   GetDefaultDuration exampleTemplate = Inr (30 * Minute) \<and>
   GetMaxDuration exampleTemplate = Inr (2 * Hour) \<and>
   apiOk 0 = None \<and> apiOk (Suc 0) = None \<and> apiOk (Suc (Suc 0)) = None \<and>
   GetUptime (Request (exampleWorld\<lparr>Request := exampleRequest\<lparr>GetDuration := Inr 0\<rparr>\<rparr>))
     > resolved 0 (30 * Minute) (2 * Hour) \<and>
   fst (expirationSteps apiOk exampleTemplate
          (exampleWorld\<lparr>Request := exampleRequest\<lparr>GetDuration := Inr 0\<rparr>\<rparr>)) = PassDeleted \<and>
   Deleted (snd (expirationSteps apiOk exampleTemplate
          (exampleWorld\<lparr>Request := exampleRequest\<lparr>GetDuration := Inr 0\<rparr>\<rparr>))) \<and>
   \<not> GetUptime (Request exampleWorld) > resolved (5 * Hour) (30 * Minute) (2 * Hour) \<and>
   fst (expirationSteps apiOk exampleTemplate exampleWorld) = PassContinues \<and>
   \<not> Deleted (snd (expirationSteps apiOk exampleTemplate exampleWorld))"
  using expirationSteps_by_age
    [of "exampleWorld\<lparr>Request := exampleRequest\<lparr>GetDuration := Inr 0\<rparr>\<rparr>" 0
        exampleTemplate "30 * Minute" "2 * Hour" apiOk]
    expirationSteps_by_age
    [of exampleWorld "5 * Hour" exampleTemplate "30 * Minute" "2 * Hour" apiOk]
  by (simp add: example_defs resolved_def chooseAccessDuration_def Hour_def Minute_def Second_def)

section \<open>Unparsable durations\<close>

lemma verifyDuration_not_valid_effects:
  "fst (SetRequestDurationsNotValid api msg w) = api (length (Calls w)) \<and>
   Calls (snd (SetRequestDurationsNotValid api msg w)) =
     Calls w @ [CallUpdateStatus (durationsNotValid msg)] \<and>
   (api (length (Calls w)) = None \<longrightarrow>
      FindStatusCondition (Conditions (Request (snd (SetRequestDurationsNotValid api msg w))))
        ConditionRequestDurationsValid = Some (durationsNotValid msg)) \<and>
   (\<forall>t. t \<noteq> ConditionRequestDurationsValid \<longrightarrow>
      FindStatusCondition (Conditions (Request (snd (SetRequestDurationsNotValid api msg w)))) t =
      FindStatusCondition (Conditions (Request w)) t)"
  by (simp add: SetRequestDurationsNotValid_def durationsNotValid_def UpdateCondition_calls
      UpdateCondition_fst UpdateCondition_other UpdateCondition_ok Find_Set_same)

text \<open>
  Claim C5. Whichever of \<open>spec.duration\<close>, the template's \<open>spec.defaultDuration\<close> and the
  template's \<open>spec.maxDuration\<close> fails to parse first, \<open>verifyDuration\<close> writes
  \<open>DurationsValid=False\<close> with a message naming that field, returns the parse error, which
  aborts the pass, and makes no other status write.
\<close>

theorem verifyDuration_unparsable:
  "(GetDuration (Request w) = Inl err \<longrightarrow> unparsable ''spec.duration'' err api tmpl w) \<and>
   (GetDuration (Request w) = Inr d \<and> GetDefaultDuration tmpl = Inl err \<longrightarrow>
      unparsable ''Template Error, spec.defaultDuration'' err api tmpl w) \<and>
   (GetDuration (Request w) = Inr d \<and> GetDefaultDuration tmpl = Inr df \<and>
    GetMaxDuration tmpl = Inl err \<longrightarrow>
      unparsable ''Template Error, spec.maxDuration'' err api tmpl w)"
  by (simp add: unparsable_def verifyDuration_def expirationSteps_def
      verifyDuration_not_valid_effects)

theorem verifyDuration_unparsable_witness:
  "GetDuration (Request (exampleWorld\<lparr>Request := exampleRequest\<lparr>GetDuration := Inl badDuration\<rparr>\<rparr>)) =
     Inl badDuration \<and>
   fst (verifyDuration apiOk exampleTemplate
     (exampleWorld\<lparr>Request := exampleRequest\<lparr>GetDuration := Inl badDuration\<rparr>\<rparr>)) =
     Some badDuration \<and>
   FindStatusCondition (Conditions (Request (snd (verifyDuration apiOk exampleTemplate
     (exampleWorld\<lparr>Request := exampleRequest\<lparr>GetDuration := Inl badDuration\<rparr>\<rparr>)))))
     ConditionRequestDurationsValid =
     Some (durationsNotValid ''spec.duration error: time: unknown unit x in duration 5x'') \<and>
   GetDuration (Request exampleWorld) = Inr (5 * Hour) \<and>
   GetDefaultDuration (exampleTemplate\<lparr>GetDefaultDuration := Inl badDuration\<rparr>) = Inl badDuration \<and>
   FindStatusCondition (Conditions (Request (snd (verifyDuration apiOk
     (exampleTemplate\<lparr>GetDefaultDuration := Inl badDuration\<rparr>) exampleWorld))))
     ConditionRequestDurationsValid =
     Some (durationsNotValid
       ''Template Error, spec.defaultDuration error: time: unknown unit x in duration 5x'') \<and>
   GetDefaultDuration (exampleTemplate\<lparr>GetMaxDuration := Inl badDuration\<rparr>) = Inr (30 * Minute) \<and>
   GetMaxDuration (exampleTemplate\<lparr>GetMaxDuration := Inl badDuration\<rparr>) = Inl badDuration \<and>
   FindStatusCondition (Conditions (Request (snd (verifyDuration apiOk
     (exampleTemplate\<lparr>GetMaxDuration := Inl badDuration\<rparr>) exampleWorld))))
     ConditionRequestDurationsValid =
     Some (durationsNotValid
       ''Template Error, spec.maxDuration error: time: unknown unit x in duration 5x'') \<and>
   fst (verifyDuration apiOk (exampleTemplate\<lparr>GetMaxDuration := Inl badDuration\<rparr>) exampleWorld) =
     Some badDuration"
  using verifyDuration_unparsable
    [where w = "exampleWorld\<lparr>Request := exampleRequest\<lparr>GetDuration := Inl badDuration\<rparr>\<rparr>"
       and err = badDuration and api = apiOk and tmpl = exampleTemplate]
    verifyDuration_unparsable
    [where w = exampleWorld and err = badDuration and api = apiOk and d = "5 * Hour"
       and tmpl = "exampleTemplate\<lparr>GetDefaultDuration := Inl badDuration\<rparr>"]
    verifyDuration_unparsable
    [where w = exampleWorld and err = badDuration and api = apiOk and d = "5 * Hour"
       and df = "30 * Minute"
       and tmpl = "exampleTemplate\<lparr>GetMaxDuration := Inl badDuration\<rparr>"]
  by (simp add: unparsable_def example_defs Let_def badDuration_def)

section \<open>Provisioning\<close>

lemma CreateAccessResources_assigned:
  "PodName (Request w) \<noteq> [] \<Longrightarrow>
   CreateAccessResources co api tmpl w =
     (Inr (''Pod already assigned -'' @ GetName (Request w)), w)"
  by (simp add: CreateAccessResources_def)

lemma invocations_assigned:
  "PodName (Request w) \<noteq> [] \<Longrightarrow> invocations runs w = w"
  by (induction runs) (auto simp: CreateAccessResources_assigned)

lemma CreateAccessResources_success:
  assumes "PodName (Request w) = []"
    "CreateAccessResources co api tmpl w = (Inr msg, w1)"
  shows "\<exists>p. GetPod co (Request w) tmpl = Inr (Some p) \<and> PodName (Request w1) = podName p"
  using assms
  by (auto simp: CreateAccessResources_def Let_def SetPodName_def
      split: sum.splits option.splits if_splits)

text \<open>
  Claim C3. When \<open>Status.PodName\<close> is already set, \<open>CreateAccessResources\<close> returns at
  once with the message ``Pod already assigned -\<open>name\<close>'' and leaves the world as it was:
  no target is resolved, nothing is created and the identity is the same, whatever the
  collaborators would select and however many invocations follow. A first invocation that
  succeeds with a named pod sets the identity to that pod, so a second one reports the
  existing assignment and later ones keep it.
\<close>

theorem CreateAccessResources_already_assigned:
  "(PodName (Request w) \<noteq> [] \<longrightarrow>
      CreateAccessResources co api tmpl w =
        (Inr (''Pod already assigned -'' @ GetName (Request w)), w) \<and>
      sublist ''already assigned'' (''Pod already assigned -'' @ GetName (Request w)) \<and>
      invocations runs w = w) \<and>
   (PodName (Request w) = [] \<and> CreateAccessResources co api tmpl w = (Inr msg, w1) \<and>
    GetPod co (Request w) tmpl = Inr (Some p) \<and> podName p \<noteq> [] \<longrightarrow>
      PodName (Request w1) = podName p \<and>
      CreateAccessResources co' api' tmpl' w1 =
        (Inr (''Pod already assigned -'' @ GetName (Request w1)), w1) \<and>
      PodName (Request (invocations runs w1)) = podName p)"
proof (intro conjI impI)
  assume "PodName (Request w) \<noteq> []"
  then show "CreateAccessResources co api tmpl w =
        (Inr (''Pod already assigned -'' @ GetName (Request w)), w)"
    and "invocations runs w = w"
    by (simp_all add: CreateAccessResources_assigned invocations_assigned)
next
  have "''Pod already assigned -'' @ GetName (Request w) =
          ''Pod '' @ ''already assigned'' @ ('' -'' @ GetName (Request w))"
    by simp
  then show "sublist ''already assigned'' (''Pod already assigned -'' @ GetName (Request w))"
    by (simp only: sublist_appendI)
next
  assume a: "PodName (Request w) = [] \<and> CreateAccessResources co api tmpl w = (Inr msg, w1) \<and>
    GetPod co (Request w) tmpl = Inr (Some p) \<and> podName p \<noteq> []"
  with CreateAccessResources_success [of w co api tmpl msg w1]
  have n: "PodName (Request w1) = podName p" by auto
  with a have ne: "PodName (Request w1) \<noteq> []" by simp
  from n show "PodName (Request w1) = podName p" .
  from ne show "CreateAccessResources co' api' tmpl' w1 =
        (Inr (''Pod already assigned -'' @ GetName (Request w1)), w1)"
    by (rule CreateAccessResources_assigned)
  from ne n show "PodName (Request (invocations runs w1)) = podName p"
    by (simp add: invocations_assigned)
qed

theorem CreateAccessResources_already_assigned_witness:
  "PodName (Request (exampleWorld\<lparr>Request := exampleRequest\<lparr>PodName := ''web-7d9f''\<rparr>\<rparr>)) \<noteq> [] \<and>
   CreateAccessResources noPodCollaborators apiOk exampleTemplate
     (exampleWorld\<lparr>Request := exampleRequest\<lparr>PodName := ''web-7d9f''\<rparr>\<rparr>) =
     (Inr ''Pod already assigned -alice-x7k2p'',
      exampleWorld\<lparr>Request := exampleRequest\<lparr>PodName := ''web-7d9f''\<rparr>\<rparr>) \<and>
   PodName (Request exampleWorld) = [] \<and>
   GetPod exampleCollaborators (Request exampleWorld) exampleTemplate = Inr (Some examplePod) \<and>
   podName examplePod \<noteq> [] \<and>
   CreateAccessResources exampleCollaborators apiOk exampleTemplate exampleWorld =
     (Inr ''Success. Role alice-x7k2p, RoleBinding alice-x7k2p created'',
      snd (CreateAccessResources exampleCollaborators apiOk exampleTemplate exampleWorld)) \<and>
   CreateAccessResources noPodCollaborators apiOk exampleTemplate
     (snd (CreateAccessResources exampleCollaborators apiOk exampleTemplate exampleWorld)) =
     (Inr ''Pod already assigned -alice-x7k2p'',
      snd (CreateAccessResources exampleCollaborators apiOk exampleTemplate exampleWorld))"
proof -
  have first: "CreateAccessResources exampleCollaborators apiOk exampleTemplate exampleWorld =
     (Inr ''Success. Role alice-x7k2p, RoleBinding alice-x7k2p created'',
      snd (CreateAccessResources exampleCollaborators apiOk exampleTemplate exampleWorld))"
    by (simp add: CreateAccessResources_def example_defs exampleCollaborators_def
        examplePod_def SetPodName_def Let_def)
  have name: "GetName (Request (snd (CreateAccessResources exampleCollaborators apiOk
      exampleTemplate exampleWorld))) = ''alice-x7k2p''"
    by (simp add: CreateAccessResources_def example_defs exampleCollaborators_def
        examplePod_def SetPodName_def Let_def)
  from first name
    CreateAccessResources_already_assigned
      [where w = "exampleWorld\<lparr>Request := exampleRequest\<lparr>PodName := ''web-7d9f''\<rparr>\<rparr>"
         and co = noPodCollaborators and api = apiOk and tmpl = exampleTemplate]
    CreateAccessResources_already_assigned
      [where w = exampleWorld and co = exampleCollaborators and api = apiOk
         and tmpl = exampleTemplate
         and msg = "''Success. Role alice-x7k2p, RoleBinding alice-x7k2p created''"
         and ?w1.0 = "snd (CreateAccessResources exampleCollaborators apiOk exampleTemplate
                        exampleWorld)"
         and p = examplePod and co' = noPodCollaborators and api' = apiOk
         and tmpl' = exampleTemplate]
  show ?thesis
    by (simp add: example_defs exampleCollaborators_def examplePod_def)
qed

text \<open>
  Claim C6. Every role that \<open>CreateAccessResources\<close> asks for carries exactly two rules:
  \<open>get\<close>, \<open>list\<close> and \<open>watch\<close> on \<open>pods\<close>, and \<open>create\<close>, \<open>update\<close>, \<open>delete\<close>, \<open>get\<close> and
  \<open>list\<close> on \<open>pods/exec\<close>; the resource names of both are the one name of the pod that
  \<open>GetPod\<close> selected.
\<close>

theorem CreateAccessResources_rules:
  assumes "CallCreateRole rs \<in> set (Calls (snd (CreateAccessResources co api tmpl w)))"
    "CallCreateRole rs \<notin> set (Calls w)"
  shows "\<exists>p. GetPod co (Request w) tmpl = Inr (Some p) \<and>
           rs = [\<lparr>APIGroups = [[]], Resources = [''pods''], ResourceNames = [podName p],
                  Verbs = [''get'', ''list'', ''watch'']\<rparr>,
                 \<lparr>APIGroups = [[]], Resources = [''pods/exec''], ResourceNames = [podName p],
                  Verbs = [''create'', ''update'', ''delete'', ''get'', ''list'']\<rparr>] \<and>
           list_all (\<lambda>r. ResourceNames r = [podName p]) rs"
  using assms
  by (auto simp: CreateAccessResources_def Let_def SetPodName_def rules_def
      split: sum.splits option.splits if_splits)

theorem CreateAccessResources_rules_witness:
  "CallCreateRole (rules ''web-7d9f'') \<in>
     set (Calls (snd (CreateAccessResources exampleCollaborators apiOk exampleTemplate exampleWorld))) \<and>
   CallCreateRole (rules ''web-7d9f'') \<notin> set (Calls exampleWorld) \<and>
   list_all (\<lambda>r. ResourceNames r = [''web-7d9f'']) (rules ''web-7d9f'')"
  using CreateAccessResources_rules
    [of "rules ''web-7d9f''" exampleCollaborators apiOk exampleTemplate exampleWorld]
  by (simp add: CreateAccessResources_def example_defs exampleCollaborators_def
        examplePod_def SetPodName_def Let_def rules_def)

text \<open>
  Claim C7. When target selection fails, with an error or with no pod,
  \<open>CreateAccessResources\<close> returns the error ``targetPod not found \<open>name\<close>''; whatever error
  the builder returns, \<open>verifyAccessResourcesBuilt\<close> returns it, which aborts the pass, and
  sets \<open>ResourcesCreated=False\<close> when the status write succeeds. When the builder succeeds
  and the status write does too, it sets \<open>ResourcesCreated=True\<close> with the builder's status
  message.
\<close>

theorem verifyAccessResourcesBuilt_outcome:
  "(PodName (Request w) = [] \<and>
    (GetPod co (Request w) tmpl = Inl e \<or> GetPod co (Request w) tmpl = Inr None) \<longrightarrow>
      fst (CreateAccessResources co api tmpl w) =
        Inl (Error (''targetPod not found '' @ GetName (Request w))) \<and>
      fst (verifyAccessResourcesBuilt api (CreateAccessResources co api tmpl) w) =
        Some (Error (''targetPod not found '' @ GetName (Request w))) \<and>
      (api (Suc (length (Calls w))) = None \<longrightarrow>
         FindStatusCondition
           (Conditions (Request (snd (verifyAccessResourcesBuilt api
              (CreateAccessResources co api tmpl) w))))
           ConditionAccessResourcesCreated =
         Some (resourcesNotCreated (Error (''targetPod not found '' @ GetName (Request w)))))) \<and>
   (G w = (Inl err, w1) \<longrightarrow>
      fst (verifyAccessResourcesBuilt api G w) = Some err \<and>
      (api (length (Calls w1)) = None \<longrightarrow>
         FindStatusCondition (Conditions (Request (snd (verifyAccessResourcesBuilt api G w))))
           ConditionAccessResourcesCreated = Some (resourcesNotCreated err))) \<and>
   (G w = (Inr statusString, w1) \<and> api (length (Calls w1)) = None \<longrightarrow>
      fst (verifyAccessResourcesBuilt api G w) = None \<and>
      FindStatusCondition (Conditions (Request (snd (verifyAccessResourcesBuilt api G w))))
        ConditionAccessResourcesCreated = Some (resourcesCreated statusString))"
  by (auto simp: verifyAccessResourcesBuilt_def CreateAccessResources_def Let_def
      SetAccessResourcesNotCreated_def SetAccessResourcesCreated_def UpdateCondition_ok
      Find_Set_same resourcesNotCreated_def resourcesCreated_def)

theorem verifyAccessResourcesBuilt_outcome_witness:
  "PodName (Request exampleWorld) = [] \<and>
   GetPod noPodCollaborators (Request exampleWorld) exampleTemplate = Inr None \<and>
   apiOk (Suc (length (Calls exampleWorld))) = None \<and>
   fst (verifyAccessResourcesBuilt apiOk
          (CreateAccessResources noPodCollaborators apiOk exampleTemplate) exampleWorld) =
     Some (Error ''targetPod not found alice-x7k2p'') \<and>
   FindStatusCondition
     (Conditions (Request (snd (verifyAccessResourcesBuilt apiOk
        (CreateAccessResources noPodCollaborators apiOk exampleTemplate) exampleWorld))))
     ConditionAccessResourcesCreated =
     Some (resourcesNotCreated (Error ''targetPod not found alice-x7k2p'')) \<and>
   CreateAccessResources noPodCollaborators apiOk exampleTemplate exampleWorld =
     (Inl (Error ''targetPod not found alice-x7k2p''),
      exampleWorld\<lparr>Calls := [CallGetPod]\<rparr>) \<and>
   apiOk (length (Calls (exampleWorld\<lparr>Calls := [CallGetPod]\<rparr>))) = None \<and>
   CreateAccessResources exampleCollaborators apiOk exampleTemplate exampleWorld =
     (Inr ''Success. Role alice-x7k2p, RoleBinding alice-x7k2p created'',
      snd (CreateAccessResources exampleCollaborators apiOk exampleTemplate exampleWorld)) \<and>
   apiOk (length (Calls (snd (CreateAccessResources exampleCollaborators apiOk exampleTemplate
      exampleWorld)))) = None \<and>
   FindStatusCondition
     (Conditions (Request (snd (verifyAccessResourcesBuilt apiOk
        (CreateAccessResources exampleCollaborators apiOk exampleTemplate) exampleWorld))))
     ConditionAccessResourcesCreated =
     Some (resourcesCreated ''Success. Role alice-x7k2p, RoleBinding alice-x7k2p created'')"
proof -
  have built: "CreateAccessResources exampleCollaborators apiOk exampleTemplate exampleWorld =
     (Inr ''Success. Role alice-x7k2p, RoleBinding alice-x7k2p created'',
      snd (CreateAccessResources exampleCollaborators apiOk exampleTemplate exampleWorld))"
    by (simp add: CreateAccessResources_def example_defs exampleCollaborators_def
        examplePod_def SetPodName_def Let_def)
  have failed: "CreateAccessResources noPodCollaborators apiOk exampleTemplate exampleWorld =
     (Inl (Error ''targetPod not found alice-x7k2p''),
      exampleWorld\<lparr>Calls := [CallGetPod]\<rparr>)"
    by (simp add: CreateAccessResources_def example_defs exampleCollaborators_def
        noPodCollaborators_def Let_def)
  from built failed
    verifyAccessResourcesBuilt_outcome
      [where w = exampleWorld and co = noPodCollaborators and tmpl = exampleTemplate
         and api = apiOk
         and G = "CreateAccessResources exampleCollaborators apiOk exampleTemplate"
         and statusString = "''Success. Role alice-x7k2p, RoleBinding alice-x7k2p created''"
         and ?w1.0 = "snd (CreateAccessResources exampleCollaborators apiOk exampleTemplate
                        exampleWorld)"]
    verifyAccessResourcesBuilt_outcome
      [where w = exampleWorld and api = apiOk
         and G = "CreateAccessResources noPodCollaborators apiOk exampleTemplate"
         and err = "Error ''targetPod not found alice-x7k2p''"
         and ?w1.0 = "exampleWorld\<lparr>Calls := [CallGetPod]\<rparr>"]
  show ?thesis
    by (simp add: example_defs exampleCollaborators_def noPodCollaborators_def)
qed

section \<open>Waiting for readiness\<close>

text \<open>
  Claim C9. The wait loop answers a failed \<open>Get\<close> with \<open>continue\<close>, before the check of the
  wait context and before the sleep. Against a server whose every \<open>Get\<close> fails the loop
  never finishes, whatever the wait duration and however long each call takes: it neither
  reports the timeout nor exits.
\<close>

theorem waitLoop_get_always_fails:
  "waitLoop fuel (getAlwaysFails took err) waitDuration s = None"
  by (induction fuel arbitrary: s) (simp_all add: getAlwaysFails_def Let_def)

text \<open>
  When every \<open>Get\<close> succeeds the loop does finish: either the request is ready, or the
  wait duration has elapsed and the exit status is 1.
\<close>

lemma waitLoop_stops_when_get_succeeds:
  assumes "\<forall>k. \<exists>took r. KubeGet k = (took, Inr r)"
  shows "\<exists>fuel result.
           waitLoop fuel KubeGet waitDuration s = Some result \<and>
           (fst result = Break \<longrightarrow> IsReady (req (snd result))) \<and>
           (fst result \<noteq> Break \<longrightarrow> fst result = Exit 1 \<and> waitDuration \<le> clock (snd result))"
proof (induction "waitDuration - clock s" arbitrary: s rule: less_induct)
  case less
  from assms obtain took r where g: "KubeGet (gets s) = (took, Inr r)" by blast
  show ?case
  proof (cases "IsReady r \<or> waitDuration \<le> clock s + took")
    case True
    with g have "\<exists>result. waitLoop (Suc 0) KubeGet waitDuration s = Some result \<and>
           (fst result = Break \<longrightarrow> IsReady (req (snd result))) \<and>
           (fst result \<noteq> Break \<longrightarrow> fst result = Exit 1 \<and> waitDuration \<le> clock (snd result))"
      by (auto simp: Let_def)
    then show ?thesis by blast
  next
    case False
    define s' where "s' =
      (let s1 = s\<lparr>clock := clock s + took, gets := gets s + 1\<rparr>; s2 = s1\<lparr>req := r\<rparr>
       in s2\<lparr>clock := clock s2 + 1000000000, out := out s2 @ [PrintDot]\<rparr>)"
    from False have "waitDuration - clock s' < waitDuration - clock s"
      by (simp add: s'_def Let_def) arith
    from less [OF this] obtain fuel result where
      r: "waitLoop fuel KubeGet waitDuration s' = Some result \<and>
           (fst result = Break \<longrightarrow> IsReady (req (snd result))) \<and>
           (fst result \<noteq> Break \<longrightarrow> fst result = Exit 1 \<and> waitDuration \<le> clock (snd result))"
      by blast
    from False g have "waitLoop (Suc fuel) KubeGet waitDuration s =
        waitLoop fuel KubeGet waitDuration s'"
      by (simp add: Let_def s'_def)
    with r show ?thesis by metis
  qed
qed


end
